theory Spec2Isabelle
  imports Main "HOL-Library.Word" "HOL-Library.Infinite_Set"
begin

unbundle bit_operations_syntax

section \<open>The bundle fetcher of lotus (package actors)\<close>

text \<open>
  The Go source keeps a cache of builtin-actors bundles on disk. \<open>Fetch\<close> lays out a
  versioned directory, trusts an existing bundle only after \<open>check\<close> has compared its
  SHA-256 digest with the companion digest file, and otherwise downloads both files with
  \<open>fetch\<close>/\<open>fetchURL\<close> and checks again.

  The embedding follows the source function by function. A Go \<open>string\<close> and a \<open>[]byte\<close>
  are both byte sequences: \<open>char list\<close>. The file system and the remote origin are an
  explicit \<open>world\<close> that every effectful function takes and returns. Go's \<open>error\<close>
  results are values of the datatype \<open>err\<close>, one constructor for each
  \<open>xerrors.Errorf\<close> of the source. Logging is left out.
\<close>

subsection \<open>Library functions the source calls\<close>

subsubsection \<open>crypto/sha256 (FIPS 180-4)\<close>

type_synonym w32 = "32 word"

definition rotr :: "nat \<Rightarrow> w32 \<Rightarrow> w32" where
  "rotr n x = drop_bit n x OR push_bit (32 - n) x"

definition Ch :: "w32 \<Rightarrow> w32 \<Rightarrow> w32 \<Rightarrow> w32" where
  "Ch x y z = (x AND y) XOR (NOT x AND z)"

definition Maj :: "w32 \<Rightarrow> w32 \<Rightarrow> w32 \<Rightarrow> w32" where
  "Maj x y z = (x AND y) XOR (x AND z) XOR (y AND z)"

definition bsig0 :: "w32 \<Rightarrow> w32" where
  "bsig0 x = rotr 2 x XOR rotr 13 x XOR rotr 22 x"

definition bsig1 :: "w32 \<Rightarrow> w32" where
  "bsig1 x = rotr 6 x XOR rotr 11 x XOR rotr 25 x"

definition ssig0 :: "w32 \<Rightarrow> w32" where
  "ssig0 x = rotr 7 x XOR rotr 18 x XOR drop_bit 3 x"

definition ssig1 :: "w32 \<Rightarrow> w32" where
  "ssig1 x = rotr 17 x XOR rotr 19 x XOR drop_bit 10 x"

text \<open>The round constants and the initial hash value of FIPS 180-4, in decimal.\<close>

definition K256 :: "w32 list" where
  "K256 =
    [1116352408, 1899447441, 3049323471, 3921009573, 961987163, 1508970993, 2453635748, 2870763221,
     3624381080, 310598401, 607225278, 1426881987, 1925078388, 2162078206, 2614888103, 3248222580,
     3835390401, 4022224774, 264347078, 604807628, 770255983, 1249150122, 1555081692, 1996064986,
     2554220882, 2821834349, 2952996808, 3210313671, 3336571891, 3584528711, 113926993, 338241895,
     666307205, 773529912, 1294757372, 1396182291, 1695183700, 1986661051, 2177026350, 2456956037,
     2730485921, 2820302411, 3259730800, 3345764771, 3516065817, 3600352804, 4094571909, 275423344,
     430227734, 506948616, 659060556, 883997877, 958139571, 1322822218, 1537002063, 1747873779,
     1955562222, 2024104815, 2227730452, 2361852424, 2428436474, 2756734187, 3204031479, 3329325298]"

type_synonym hstate = "w32 \<times> w32 \<times> w32 \<times> w32 \<times> w32 \<times> w32 \<times> w32 \<times> w32"

definition H256 :: hstate where
  "H256 = (1779033703, 3144134277, 1013904242, 2773480762,
           1359893119, 2600822924, 528734635, 1541459225)"

fun be32 :: "char list \<Rightarrow> w32 list" where
  "be32 (a # b # c # d # rest) =
     (push_bit 24 (of_char a) OR push_bit 16 (of_char b) OR push_bit 8 (of_char c) OR of_char d)
       # be32 rest"
| "be32 _ = []"

fun extend :: "nat \<Rightarrow> w32 list \<Rightarrow> w32 list" where
  "extend 0 ws = ws"
| "extend (Suc n) ws =
     (let t = length ws in
      extend n (ws @ [ssig1 (ws ! (t - 2)) + ws ! (t - 7) + ssig0 (ws ! (t - 15)) + ws ! (t - 16)]))"

definition round256 :: "hstate \<Rightarrow> w32 \<times> w32 \<Rightarrow> hstate" where
  "round256 s kw =
     (case s of (a, b, c, d, e, f, g, h) \<Rightarrow>
      case kw of (k, w) \<Rightarrow>
        let t1 = h + bsig1 e + Ch e f g + k + w;
            t2 = bsig0 a + Maj a b c
        in (t1 + t2, a, b, c, d + t1, e, f, g))"

definition block256 :: "hstate \<Rightarrow> char list \<Rightarrow> hstate" where
  "block256 s p =
     (case s of (h0, h1, h2, h3, h4, h5, h6, h7) \<Rightarrow>
      case foldl round256 s (zip K256 (extend 48 (be32 p))) of
        (a, b, c, d, e, f, g, h) \<Rightarrow>
          (h0 + a, h1 + b, h2 + c, h3 + d, h4 + e, h5 + f, h6 + g, h7 + h))"

fun chunks64 :: "char list \<Rightarrow> char list list" where
  "chunks64 [] = []"
| "chunks64 (x # xs) = take 64 (x # xs) # chunks64 (drop 64 (x # xs))"

definition be_bytes :: "nat \<Rightarrow> nat \<Rightarrow> char list" where
  "be_bytes k n = map (\<lambda>i. char_of (drop_bit (8 * i) n)) (rev [0..<k])"

definition pad256 :: "char list \<Rightarrow> char list" where
  "pad256 m =
     m @ [char_of (0x80 :: nat)] @ replicate ((119 - length m mod 64) mod 64) (char_of (0 :: nat))
       @ be_bytes 8 ((8 * length m) mod 2 ^ 64)"

text \<open>\<open>h := sha256.New(); io.Copy(h, f); h.Sum(nil)\<close>: the digest of the whole content.\<close>

definition sha256 :: "char list \<Rightarrow> char list" where
  "sha256 m =
     (case foldl block256 H256 (chunks64 (pad256 m)) of
        (h0, h1, h2, h3, h4, h5, h6, h7) \<Rightarrow>
          concat (map (\<lambda>h. be_bytes 4 (unat h)) [h0, h1, h2, h3, h4, h5, h6, h7]))"

subsubsection \<open>encoding/hex\<close>

datatype hex_error = InvalidByteError char | ErrLength

definition fromHexChar :: "char \<Rightarrow> nat option" where
  "fromHexChar c =
     (let n = (of_char c :: nat) in
      if 48 \<le> n \<and> n \<le> 57 then Some (n - 48)
      else if 97 \<le> n \<and> n \<le> 102 then Some (n - 87)
      else if 65 \<le> n \<and> n \<le> 70 then Some (n - 55)
      else None)"

text \<open>
  \<open>hex.DecodeString\<close>: two digits a byte, either case; an invalid digit is reported
  before an odd length.
\<close>

fun hex_DecodeString :: "string \<Rightarrow> hex_error + char list" where
  "hex_DecodeString [] = Inr []"
| "hex_DecodeString [p] =
     (case fromHexChar p of None \<Rightarrow> Inl (InvalidByteError p) | Some a \<Rightarrow> Inl ErrLength)"
| "hex_DecodeString (p # q # rest) =
     (case fromHexChar p of
        None \<Rightarrow> Inl (InvalidByteError p)
      | Some a \<Rightarrow>
         (case fromHexChar q of
            None \<Rightarrow> Inl (InvalidByteError q)
          | Some b \<Rightarrow>
             (case hex_DecodeString rest of
                Inl e \<Rightarrow> Inl e
              | Inr bs \<Rightarrow> Inr (char_of (16 * a + b) # bs))))"

definition hexdigit :: "nat \<Rightarrow> char" where
  "hexdigit k = char_of (if k < 10 then 48 + k else 87 + k)"

text \<open>\<open>hex.EncodeToString\<close> (lowercase), the way digest files are produced.\<close>

fun hex_EncodeToString :: "char list \<Rightarrow> string" where
  "hex_EncodeToString [] = []"
| "hex_EncodeToString (b # bs) =
     hexdigit ((of_char b :: nat) div 16) # hexdigit ((of_char b :: nat) mod 16)
       # hex_EncodeToString bs"

subsubsection \<open>strings, fmt, path/filepath\<close>

text \<open>\<open>strings.Split(s, sep)\<close> for a separator of one byte: never an empty result.\<close>

fun strings_Split :: "string \<Rightarrow> char \<Rightarrow> string list" where
  "strings_Split [] sep = [[]]"
| "strings_Split (x # xs) sep =
     (if x = sep then [] # strings_Split xs sep
      else (case strings_Split xs sep of
              [] \<Rightarrow> [[x]]
            | p # ps \<Rightarrow> (x # p) # ps))"

fun strings_Join :: "string list \<Rightarrow> string \<Rightarrow> string" where
  "strings_Join [] sep = []"
| "strings_Join [x] sep = x"
| "strings_Join (x # y # ys) sep = x @ sep @ strings_Join (y # ys) sep"

text \<open>\<open>fmt.Sprintf("%d", n)\<close> for a number that is not negative.\<close>

fun fmt_d :: "nat \<Rightarrow> string" where
  "fmt_d n =
     (if n < 10 then [char_of (48 + n)]
      else fmt_d (n div 10) @ [char_of (48 + n mod 10)])"

declare fmt_d.simps [simp del]

text \<open>
  \<open>filepath.Clean\<close> on Unix, by path elements: empty elements and \<open>.\<close> are dropped,
  \<open>..\<close> removes the element before it (at the root it is dropped, at the start of a
  relative path it stays), and the empty result is \<open>.\<close>. The stack holds the elements
  kept so far, the last one first.
\<close>

definition clean_step :: "bool \<Rightarrow> string list \<Rightarrow> string \<Rightarrow> string list" where
  "clean_step rooted st c =
     (if c = [] \<or> c = ''.'' then st
      else if c = ''..'' then
        (case st of
           [] \<Rightarrow> (if rooted then [] else [''..''])
         | t # ts \<Rightarrow> (if t = ''..'' then ''..'' # st else ts))
      else c # st)"

definition is_rooted :: "string \<Rightarrow> bool" where
  "is_rooted p = (case p of [] \<Rightarrow> False | c # _ \<Rightarrow> c = CHR ''/'')"

definition filepath_Clean :: "string \<Rightarrow> string" where
  "filepath_Clean p =
     (let out = (if is_rooted p then ''/'' else [])
                  @ strings_Join (rev (foldl (clean_step (is_rooted p)) []
                                        (strings_Split p CHR ''/''))) ''/''
      in if out = [] then ''.'' else out)"

text \<open>
  \<open>filepath.Join\<close>: the elements from the first non-empty one on, joined by the
  separator and cleaned; the empty string when every element is empty.
\<close>

fun filepath_Join :: "string list \<Rightarrow> string" where
  "filepath_Join [] = []"
| "filepath_Join (e # es) =
     (if e \<noteq> [] then filepath_Clean (strings_Join (e # es) ''/'') else filepath_Join es)"

text \<open>\<open>filepath.Dir\<close>: the path up to its last separator, cleaned.\<close>

definition filepath_Dir :: "string \<Rightarrow> string" where
  "filepath_Dir p = filepath_Clean (rev (dropWhile (\<lambda>c. c \<noteq> CHR ''/'') (rev p)))"

subsection \<open>The file system and the origin\<close>

text \<open>
  What the operating system can refuse: each system call on each path. A call in
  \<open>denied\<close> fails (permissions, an I/O error, a path that collides with a file of
  another kind); \<open>write_cap\<close> bounds the bytes a file accepts before a write fails (a
  full disk).
\<close>

datatype syscall =
    SysMkdirAll string
  | SysStat string
  | SysOpen string
  | SysRead string
  | SysOpenFile string

text \<open>
  What \<open>http.Get\<close> meets at a URL: a transport error, or a response with its status,
  the bytes of the body that arrive, and whether the body ends properly (\<open>False\<close>: the
  connection breaks after these bytes).
\<close>

datatype response = Unreachable | Response nat "char list" bool

record world =
  dirs :: "string set"
  files :: "string \<rightharpoonup> char list"
  denied :: "syscall set"
  write_cap :: "string \<rightharpoonup> nat"
  origin :: "string \<Rightarrow> response"
  requests :: "string list"

text \<open>\<open>os.MkdirAll(path, 0755)\<close>.\<close>

definition os_MkdirAll :: "string \<Rightarrow> world \<Rightarrow> unit + world" where
  "os_MkdirAll p w =
     (if SysMkdirAll p \<in> denied w then Inl ()
      else Inr (w\<lparr>dirs := insert p (dirs w)\<rparr>))"

text \<open>\<open>os.Stat(path)\<close> returns no error: the path exists and can be examined.\<close>

definition os_Stat :: "world \<Rightarrow> string \<Rightarrow> bool" where
  "os_Stat w p = (SysStat p \<notin> denied w \<and> (p \<in> dom (files w) \<or> p \<in> dirs w))"

text \<open>\<open>os.Open(path)\<close>: the handle is the path, the files do not change while it is read.\<close>

definition os_Open :: "world \<Rightarrow> string \<Rightarrow> unit + string" where
  "os_Open w p =
     (if SysOpen p \<notin> denied w \<and> (p \<in> dom (files w) \<or> p \<in> dirs w) then Inr p else Inl ())"

text \<open>Reading a handle to its end (\<open>io.ReadAll(f)\<close>, \<open>io.Copy(h256, f)\<close>); a directory cannot be read.\<close>

definition read_all :: "world \<Rightarrow> string \<Rightarrow> unit + char list" where
  "read_all w f =
     (if SysRead f \<in> denied w then Inl ()
      else (case files w f of None \<Rightarrow> Inl () | Some c \<Rightarrow> Inr c))"

text \<open>\<open>os.OpenFile(path, O_WRONLY|O_CREATE|O_TRUNC, 0644)\<close>: the file is empty from here on.\<close>

definition os_OpenFile :: "string \<Rightarrow> world \<Rightarrow> unit + world" where
  "os_OpenFile p w =
     (if SysOpenFile p \<in> denied w then Inl ()
      else Inr (w\<lparr>files := (files w)(p \<mapsto> [])\<rparr>))"

text \<open>
  \<open>io.Copy(f, resp.Body)\<close>: the bytes that arrived and fit are in the file, also when
  the copy fails. The result is \<open>True\<close> when the copy returned no error.
\<close>

definition io_Copy :: "string \<Rightarrow> char list \<Rightarrow> bool \<Rightarrow> world \<Rightarrow> bool \<times> world" where
  "io_Copy p body complete w =
     (case write_cap w p of
        None \<Rightarrow> (complete, w\<lparr>files := (files w)(p \<mapsto> body)\<rparr>)
      | Some n \<Rightarrow>
          (complete \<and> length body \<le> n, w\<lparr>files := (files w)(p \<mapsto> take n body)\<rparr>))"

subsection \<open>The source\<close>

datatype err =
    MkdirError string             \<comment> \<open>error making bundle directory %s\<close>
  | FetchError err                \<comment> \<open>error fetching bundle: %w\<close>
  | CheckError err                \<comment> \<open>error checking bundle: %s\<close>
  | GetError string               \<comment> \<open>error fetching %s: %w\<close>
  | StatusError string nat        \<comment> \<open>error fetching %s: http response status is %d\<close>
  | OpenWriteError string         \<comment> \<open>error opening %s for writing\<close>
  | WriteError string             \<comment> \<open>error writing %s\<close>
  | OpenError string              \<comment> \<open>error opening %s\<close>
  | ReadError string              \<comment> \<open>error reading %s\<close>
  | DecodeError string hex_error  \<comment> \<open>error decoding digest from %s: %w\<close>
  | DigestError string            \<comment> \<open>error computing digest for %s\<close>
  | HashMismatch                  \<comment> \<open>hash mismatch\<close>
  | IndexPanic                    \<comment> \<open>parts[0] out of range\<close>

record BundleFetcher =
  path :: string


definition fetchURL :: "string \<Rightarrow> string \<Rightarrow> world \<Rightarrow> (err + unit) \<times> world" where
  "fetchURL url p w =
     (let w1 = w\<lparr>requests := requests w @ [url]\<rparr> in
      case origin w url of
        Unreachable \<Rightarrow> (Inl (GetError url), w1)
      | Response status body complete \<Rightarrow>
          if status \<noteq> 200 then (Inl (StatusError url status), w1)
          else (case os_OpenFile p w1 of
                  Inl _ \<Rightarrow> (Inl (OpenWriteError p), w1)
                | Inr w2 \<Rightarrow>
                   (case io_Copy p body complete w2 of
                      (ok, w3) \<Rightarrow> if ok then (Inr (), w3) else (Inl (WriteError p), w3))))"

definition releaseURL :: "string \<Rightarrow> string \<Rightarrow> string" where
  "releaseURL release name =
     ''https://github.com/filecoin-project/builtin-actors/releases/download/''
       @ release @ ''/'' @ name"

definition fetch :: "string \<Rightarrow> string \<Rightarrow> string \<Rightarrow> string \<Rightarrow> world \<Rightarrow> (err + unit) \<times> world" where
  "fetch release bundleBasePath bundleFile bundleHash w =
     (let bundleHashUrl = releaseURL release bundleHash;
          bundleHashPath = filepath_Join [bundleBasePath, bundleHash]
      in case fetchURL bundleHashUrl bundleHashPath w of
           (Inl e, w1) \<Rightarrow> (Inl e, w1)
         | (Inr _, w1) \<Rightarrow>
            (let bundleFileUrl = releaseURL release bundleFile;
                 bundleFilePath = filepath_Join [bundleBasePath, bundleFile]
             in case fetchURL bundleFileUrl bundleFilePath w1 of
                  (Inl e, w2) \<Rightarrow> (Inl e, w2)
                | (Inr _, w2) \<Rightarrow> (Inr (), w2)))"

definition check :: "world \<Rightarrow> string \<Rightarrow> string \<Rightarrow> string \<Rightarrow> err + unit" where
  "check w bundleBasePath bundleFile bundleHash =
     (let bundleHashPath = filepath_Join [bundleBasePath, bundleHash] in
      case os_Open w bundleHashPath of
        Inl _ \<Rightarrow> Inl (OpenError bundleHashPath)
      | Inr f \<Rightarrow>
      (case read_all w f of
        Inl _ \<Rightarrow> Inl (ReadError bundleHashPath)
      | Inr bs \<Rightarrow>
      (case strings_Split bs CHR '' '' of
        [] \<Rightarrow> Inl IndexPanic
      | hashHex # _ \<Rightarrow>
      (case hex_DecodeString hashHex of
        Inl e \<Rightarrow> Inl (DecodeError bundleHashPath e)
      | Inr expectedDigest \<Rightarrow>
      (let bundleFilePath = filepath_Join [bundleBasePath, bundleFile] in
       case os_Open w bundleFilePath of
         Inl _ \<Rightarrow> Inl (OpenError bundleFilePath)
       | Inr f' \<Rightarrow>
       (case read_all w f' of
         Inl _ \<Rightarrow> Inl (DigestError bundleFilePath)
       | Inr content \<Rightarrow>
          if sha256 content \<noteq> expectedDigest then Inl HashMismatch else Inr ()))))))"

text \<open>
  Modelled from the spec: the declaration of the type \<open>Version\<close> is not among the
  sources; the spec's data model gives the version as an unsigned integer.
\<close>

type_synonym Version = nat

definition bundleBasePath_of :: "BundleFetcher \<Rightarrow> Version \<Rightarrow> string \<Rightarrow> string" where
  "bundleBasePath_of b version release = filepath_Join [path b, ''v'' @ fmt_d version, release]"

definition bundleFile_of :: "string \<Rightarrow> string" where
  "bundleFile_of netw = (''builtin-actors-'' @ netw) @ ''.car''"

definition bundleHash_of :: "string \<Rightarrow> string" where
  "bundleHash_of netw = (''builtin-actors-'' @ netw) @ ''.sha256''"

definition Fetch ::
  "BundleFetcher \<Rightarrow> Version \<Rightarrow> string \<Rightarrow> string \<Rightarrow> world \<Rightarrow> (err + string) \<times> world" where
  "Fetch b version release netw w =
     (let bundleFile = bundleFile_of netw;
          bundleHash = bundleHash_of netw;
          bundleBasePath = bundleBasePath_of b version release
      in case os_MkdirAll bundleBasePath w of
           Inl _ \<Rightarrow> (Inl (MkdirError bundleBasePath), w)
         | Inr w1 \<Rightarrow>
            (let bundleFilePath = filepath_Join [bundleBasePath, bundleFile];
                 refetch =
                   (case fetch release bundleBasePath bundleFile bundleHash w1 of
                      (Inl e, w2) \<Rightarrow> (Inl (FetchError e), w2)
                    | (Inr _, w2) \<Rightarrow>
                       (case check w2 bundleBasePath bundleFile bundleHash of
                          Inl e \<Rightarrow> (Inl (CheckError e), w2)
                        | Inr _ \<Rightarrow> (Inr bundleFilePath, w2)))
             in if os_Stat w1 bundleFilePath then
                  (case check w1 bundleBasePath bundleFile bundleHash of
                     Inr _ \<Rightarrow> (Inr bundleFilePath, w1)
                   | Inl _ \<Rightarrow> refetch)
                else refetch))"

subsection \<open>Vocabulary of the statements\<close>

text \<open>
  A proper path element: not empty, without a separator, and neither \<open>.\<close> nor \<open>..\<close>.
\<close>

definition proper :: "string \<Rightarrow> bool" where
  "proper c = (c \<noteq> [] \<and> CHR ''/'' \<notin> set c \<and> c \<noteq> ''.'' \<and> c \<noteq> ''..'')"


text \<open>What \<open>filepath.Clean\<close> keeps of a directory \<open>d\<close> in front of a last element.\<close>

definition clean_dir :: "string \<Rightarrow> string" where
  "clean_dir d =
     (if is_rooted d then ''/'' else [])
       @ concat (map (\<lambda>c. c @ ''/'')
           (rev (foldl (clean_step (is_rooted d)) [] (strings_Split d CHR ''/''))))"

text \<open>The file at \<open>p\<close> holds \<open>content\<close> and can be opened and read.\<close>

definition readable :: "world \<Rightarrow> string \<Rightarrow> char list \<Rightarrow> bool" where
  "readable w p content =
     (files w p = Some content \<and> SysOpen p \<notin> denied w \<and> SysRead p \<notin> denied w)"

text \<open>The two paths \<open>Fetch\<close>, \<open>fetch\<close> and \<open>check\<close> compute for an identity.\<close>

definition bundleFilePath_of :: "BundleFetcher \<Rightarrow> Version \<Rightarrow> string \<Rightarrow> string \<Rightarrow> string" where
  "bundleFilePath_of b version release netw =
     filepath_Join [bundleBasePath_of b version release, bundleFile_of netw]"

definition bundleHashPath_of :: "BundleFetcher \<Rightarrow> Version \<Rightarrow> string \<Rightarrow> string \<Rightarrow> string" where
  "bundleHashPath_of b version release netw =
     filepath_Join [bundleBasePath_of b version release, bundleHash_of netw]"

text \<open>
  The first whitespace-delimited token of a text, in the spec's words: it ends at the
  first space, tab, newline or carriage return.
\<close>

definition spec_first_token :: "string \<Rightarrow> string" where
  "spec_first_token s =
     takeWhile (\<lambda>c. c \<noteq> CHR '' '' \<and> c \<noteq> CHR 0x09 \<and> c \<noteq> CHR 0x0A \<and> c \<noteq> CHR 0x0D) s"

subsection \<open>The end-to-end scenario of the spec\<close>

text \<open>
  Root \<open>/tmp/cache\<close>, version 8, release \<open>v8.0.0\<close>, network \<open>mainnet\<close>. The origin
  serves a bundle and its digest file in the format of \<open>sha256sum\<close>, and answers 404
  for every other URL.
\<close>

definition ex_b :: BundleFetcher where
  "ex_b = \<lparr>path = ''/tmp/cache/builtin-actors''\<rparr>"

definition ex_dir :: string where
  "ex_dir = ''/tmp/cache/builtin-actors/v8/v8.0.0''"

definition ex_car_path :: string where
  "ex_car_path = ''/tmp/cache/builtin-actors/v8/v8.0.0/builtin-actors-mainnet.car''"

definition ex_sha_path :: string where
  "ex_sha_path = ''/tmp/cache/builtin-actors/v8/v8.0.0/builtin-actors-mainnet.sha256''"

definition ex_car_url :: string where
  "ex_car_url = releaseURL ''v8.0.0'' ''builtin-actors-mainnet.car''"

definition ex_sha_url :: string where
  "ex_sha_url = releaseURL ''v8.0.0'' ''builtin-actors-mainnet.sha256''"

definition ex_car :: "char list" where
  "ex_car = ''the bytes of the bundle''"

definition ex_sha :: "char list" where
  "ex_sha = hex_EncodeToString (sha256 ex_car) @ ''  builtin-actors-mainnet.car'' @ [CHR 0x0A]"

definition ex_origin :: "string \<Rightarrow> response" where
  "ex_origin url =
     (if url = ex_sha_url then Response 200 ex_sha True
      else if url = ex_car_url then Response 200 ex_car True
      else Response 404 [] True)"

text \<open>The empty cache, and the cache after the first call.\<close>

definition ex_empty :: world where
  "ex_empty = \<lparr>dirs = {}, files = Map.empty, denied = {}, write_cap = Map.empty,
                origin = ex_origin, requests = []\<rparr>"

definition ex_cached :: world where
  "ex_cached = \<lparr>dirs = {ex_dir}, files = [ex_sha_path \<mapsto> ex_sha, ex_car_path \<mapsto> ex_car],
                 denied = {}, write_cap = Map.empty,
                 origin = ex_origin, requests = [ex_sha_url, ex_car_url]\<rparr>"

text \<open>A cache that holds a stale bundle and no digest file.\<close>

definition ex_stale :: world where
  "ex_stale = \<lparr>dirs = {ex_dir}, files = [ex_car_path \<mapsto> ''stale bytes''], denied = {},
                write_cap = Map.empty, origin = ex_origin, requests = []\<rparr>"

text \<open>The empty cache in front of an origin that cannot be reached.\<close>

definition ex_offline :: world where
  "ex_offline = \<lparr>dirs = {}, files = Map.empty, denied = {}, write_cap = Map.empty,
                  origin = (\<lambda>url. Unreachable), requests = []\<rparr>"

text \<open>The empty cache in front of an origin whose digest file is not a digest.\<close>

definition ex_garbled :: world where
  "ex_garbled = \<lparr>dirs = {}, files = Map.empty, denied = {}, write_cap = Map.empty,
                  origin = (\<lambda>url. if url = ex_sha_url then Response 200 ''not a digest'' True
                                  else if url = ex_car_url then Response 200 ex_car True
                                  else Response 404 [] True),
                  requests = []\<rparr>"

text \<open>
  A digest file and a bundle at the scenario's paths, nothing refused: the pair of files
  \<open>check\<close> is run on.
\<close>

definition pair_world :: "char list \<Rightarrow> char list \<Rightarrow> world" where
  "pair_world digest_text content =
     \<lparr>dirs = {ex_dir}, files = [ex_sha_path \<mapsto> digest_text, ex_car_path \<mapsto> content],
      denied = {}, write_cap = Map.empty, origin = (\<lambda>url. Unreachable), requests = []\<rparr>"

text \<open>
  A valid cache whose bundle cannot be opened for reading, in front of an origin that
  no longer has the release.
\<close>

definition ex_unreadable :: world where
  "ex_unreadable =
     \<lparr>dirs = {ex_dir}, files = [ex_sha_path \<mapsto> ex_sha, ex_car_path \<mapsto> ex_car],
      denied = {SysOpen ex_car_path}, write_cap = Map.empty,
      origin = (\<lambda>url. Response 404 [] True), requests = []\<rparr>"

text \<open>
  The stale cache in front of an origin whose connection breaks after the first three
  bytes of the bundle.
\<close>

definition ex_broken :: world where
  "ex_broken = \<lparr>dirs = {ex_dir}, files = [ex_car_path \<mapsto> ''stale bytes''], denied = {},
                 write_cap = Map.empty,
                 origin = (\<lambda>url. if url = ex_sha_url then Response 200 ex_sha True
                                 else if url = ex_car_url then Response 200 ''the'' False
                                 else Response 404 [] True),
                 requests = []\<rparr>"

text \<open>The empty cache where the versioned directory cannot be made.\<close>

definition ex_readonly :: world where
  "ex_readonly = \<lparr>dirs = {}, files = Map.empty, denied = {SysMkdirAll ex_dir},
                   write_cap = Map.empty, origin = ex_origin, requests = []\<rparr>"

text \<open>The stale cache in front of an origin that has the digest file and not the bundle.\<close>

definition ex_half :: world where
  "ex_half = \<lparr>dirs = {ex_dir}, files = [ex_car_path \<mapsto> ''stale bytes''], denied = {},
               write_cap = Map.empty,
               origin = (\<lambda>url. if url = ex_sha_url then Response 200 ex_sha True
                               else Response 404 [] True),
               requests = []\<rparr>"

section \<open>Facts about the library functions\<close>

declare filepath_Join.simps [simp del]


lemma hexdigit_inv: "k < 16 \<Longrightarrow> fromHexChar (hexdigit k) = Some k"
  by (auto simp: fromHexChar_def hexdigit_def Let_def)

lemma hexdigit_not_space: "k < 16 \<Longrightarrow> hexdigit k \<noteq> CHR '' ''"
proof -
  assume "k < 16"
  then have "fromHexChar (hexdigit k) = Some k" by (rule hexdigit_inv)
  moreover have "fromHexChar CHR '' '' = None" by (simp add: fromHexChar_def)
  ultimately show ?thesis by auto
qed

lemma of_char_nibbles: "(of_char a :: nat) div 16 < 16" "(of_char a :: nat) mod 16 < 16"
proof -
  have "(of_char a :: nat) < 256" by simp
  then show "(of_char a :: nat) div 16 < 16" by linarith
  show "(of_char a :: nat) mod 16 < 16" by simp
qed

lemma hex_roundtrip: "hex_DecodeString (hex_EncodeToString bs) = Inr bs"
  by (induction bs) (simp_all add: hexdigit_inv of_char_nibbles)

lemma hex_no_space: "CHR '' '' \<notin> set (hex_EncodeToString bs)"
  by (induction bs) (simp_all add: hexdigit_not_space [symmetric] of_char_nibbles)

lemma Split_nonempty: "strings_Split s c \<noteq> []"
  by (induction s) (auto split: list.splits)

lemma Split_none: "c \<notin> set x \<Longrightarrow> strings_Split x c = [x]"
  by (induction x) auto

lemma Split_hd: "\<exists>ps. strings_Split s c = takeWhile (\<lambda>x. x \<noteq> c) s # ps"
  by (induction s) (auto split: list.splits)


lemma Split_snoc: "c \<notin> set x \<Longrightarrow> strings_Split (d @ c # x) c = strings_Split d c @ [x]"
  by (induction d) (auto simp: Split_none Split_nonempty split: list.splits)

lemma Join_snoc: "strings_Join (ys @ [x]) sep = concat (map (\<lambda>c. c @ sep) ys) @ x"
  by (induction ys sep rule: strings_Join.induct) auto


lemma is_rooted_append: "d \<noteq> [] \<Longrightarrow> is_rooted (d @ x) = is_rooted d"
  by (cases d) (auto simp: is_rooted_def)

lemma clean_step_proper: "proper c \<Longrightarrow> clean_step r st c = c # st"
  by (auto simp: clean_step_def proper_def)

lemma Clean_snoc:
  assumes "d \<noteq> []" "proper x"
  shows "filepath_Clean (d @ ''/'' @ x) = clean_dir d @ x"
proof -
  have s: "strings_Split (d @ ''/'' @ x) CHR ''/'' = strings_Split d CHR ''/'' @ [x]"
    using assms(2) Split_snoc [of "CHR ''/''" x d] by (simp add: proper_def)
  have r: "is_rooted (d @ ''/'' @ x) = is_rooted d"
    using assms(1) by (rule is_rooted_append)
  have x: "x \<noteq> []" using assms(2) by (simp add: proper_def)
  show ?thesis
    unfolding filepath_Clean_def s r clean_dir_def
    using x by (simp add: clean_step_proper [OF assms(2)] Join_snoc Let_def)
qed

lemma Clean_nonempty: "filepath_Clean p \<noteq> []"
  by (simp add: filepath_Clean_def Let_def)








lemma Join2: "d \<noteq> [] \<Longrightarrow> filepath_Join [d, f] = filepath_Clean (d @ ''/'' @ f)"
  by (simp add: filepath_Join.simps)




lemma bundleFile_proper: "CHR ''/'' \<notin> set netw \<Longrightarrow> proper (bundleFile_of netw)"
  by (auto simp: proper_def bundleFile_of_def)

lemma bundleHash_proper: "CHR ''/'' \<notin> set netw \<Longrightarrow> proper (bundleHash_of netw)"
  by (auto simp: proper_def bundleHash_of_def)

lemma bundleBasePath_nonempty: "bundleBasePath_of b v r \<noteq> []"
  by (auto simp: bundleBasePath_of_def Clean_nonempty filepath_Join.simps)

lemma bundleFilePath_eq:
  "CHR ''/'' \<notin> set n \<Longrightarrow>
   bundleFilePath_of b v r n = clean_dir (bundleBasePath_of b v r) @ bundleFile_of n"
  using Clean_snoc [OF bundleBasePath_nonempty bundleFile_proper, of n b v r]
  by (simp add: bundleFilePath_of_def bundleBasePath_nonempty Join2)

lemma bundleHashPath_eq:
  "CHR ''/'' \<notin> set n \<Longrightarrow>
   bundleHashPath_of b v r n = clean_dir (bundleBasePath_of b v r) @ bundleHash_of n"
  using Clean_snoc [OF bundleBasePath_nonempty bundleHash_proper, of n b v r]
  by (simp add: bundleHashPath_of_def bundleBasePath_nonempty Join2)

lemma hash_path_neq_file_path:
  "CHR ''/'' \<notin> set n \<Longrightarrow> bundleHashPath_of b v r n \<noteq> bundleFilePath_of b v r n"
  by (simp add: bundleFilePath_eq bundleHashPath_eq bundleFile_of_def bundleHash_of_def)

lemma file_path_inj:
  "CHR ''/'' \<notin> set n1 \<Longrightarrow> CHR ''/'' \<notin> set n2 \<Longrightarrow>
   bundleFilePath_of b v r n1 = bundleFilePath_of b v r n2 \<Longrightarrow> n1 = n2"
  by (simp add: bundleFilePath_eq bundleFile_of_def)


section \<open>Facts about the file system and the source\<close>

lemma MkdirAll_Inr:
  "os_MkdirAll d w = Inr w1 \<Longrightarrow>
   w1 = w\<lparr>dirs := insert d (dirs w)\<rparr> \<and> SysMkdirAll d \<notin> denied w"
  by (auto simp: os_MkdirAll_def split: if_splits)

lemma MkdirAll_again:
  "SysMkdirAll d \<notin> denied w \<Longrightarrow> d \<in> dirs w \<Longrightarrow> os_MkdirAll d w = Inr w"
  by (simp add: os_MkdirAll_def insert_absorb)

lemma fetchURL_frame:
  assumes "fetchURL url p w = (res, w')"
  shows "requests w' = requests w @ [url] \<and> dirs w' = dirs w \<and> denied w' = denied w
         \<and> write_cap w' = write_cap w \<and> origin w' = origin w
         \<and> (\<forall>q. q \<noteq> p \<longrightarrow> files w' q = files w q)"
  using assms
  by (auto simp: fetchURL_def os_OpenFile_def io_Copy_def Let_def
           split: response.splits if_splits sum.splits option.splits prod.splits)

lemma fetchURL_Inr:
  assumes "fetchURL url p w = (Inr u, w')"
  shows "\<exists>body. origin w url = Response 200 body True
           \<and> files w' p = Some body \<and> SysOpenFile p \<notin> denied w"
  using assms
  by (auto simp: fetchURL_def os_OpenFile_def io_Copy_def Let_def
           split: response.splits if_splits sum.splits option.splits prod.splits)

lemma fetchURL_not_written:
  assumes "fetchURL url p w = (Inl e, w')" "e \<noteq> WriteError p"
  shows "files w' = files w"
  using assms
  by (auto simp: fetchURL_def os_OpenFile_def io_Copy_def Let_def
           split: response.splits if_splits sum.splits option.splits prod.splits)

lemma fetchURL_Unreachable:
  "origin w url = Unreachable \<Longrightarrow>
   fetchURL url p w = (Inl (GetError url), w\<lparr>requests := requests w @ [url]\<rparr>)"
  by (simp add: fetchURL_def)

lemma fetchURL_status:
  "origin w url = Response status body c \<Longrightarrow> status \<noteq> 200 \<Longrightarrow>
   fetchURL url p w = (Inl (StatusError url status), w\<lparr>requests := requests w @ [url]\<rparr>)"
  by (simp add: fetchURL_def)

lemma fetch_unfold:
  "fetch release d f h w =
     (case fetchURL (releaseURL release h) (filepath_Join [d, h]) w of
        (Inl e, w1) \<Rightarrow> (Inl e, w1)
      | (Inr _, w1) \<Rightarrow>
         (case fetchURL (releaseURL release f) (filepath_Join [d, f]) w1 of
            (Inl e, w2) \<Rightarrow> (Inl e, w2)
          | (Inr _, w2) \<Rightarrow> (Inr (), w2)))"
  by (simp add: fetch_def Let_def split: prod.splits sum.splits)

lemma fetch_hash_fails:
  "fetchURL (releaseURL release h) (filepath_Join [d, h]) w = (Inl e, w1) \<Longrightarrow>
   fetch release d f h w = (Inl e, w1)"
  by (simp add: fetch_unfold)

lemma fetch_file_fails:
  "fetchURL (releaseURL release h) (filepath_Join [d, h]) w = (Inr u, w1) \<Longrightarrow>
   fetchURL (releaseURL release f) (filepath_Join [d, f]) w1 = (Inl e, w2) \<Longrightarrow>
   fetch release d f h w = (Inl e, w2)"
  by (simp add: fetch_unfold)

lemma fetch_Inr:
  assumes "fetch release d f h w = (Inr u, w2)"
  shows "\<exists>w1. fetchURL (releaseURL release h) (filepath_Join [d, h]) w = (Inr (), w1)
            \<and> fetchURL (releaseURL release f) (filepath_Join [d, f]) w1 = (Inr (), w2)"
  using assms by (auto simp: fetch_unfold split: prod.splits sum.splits)

lemma fetch_Inr_frame:
  assumes "fetch release d f h w = (Inr u, w2)"
  shows "requests w2 = requests w @ [releaseURL release h, releaseURL release f]
         \<and> dirs w2 = dirs w \<and> denied w2 = denied w"
proof -
  from fetch_Inr [OF assms] obtain w1 where
    a: "fetchURL (releaseURL release h) (filepath_Join [d, h]) w = (Inr (), w1)" and
    b: "fetchURL (releaseURL release f) (filepath_Join [d, f]) w1 = (Inr (), w2)" by blast
  show ?thesis using fetchURL_frame [OF a] fetchURL_frame [OF b] by simp
qed

lemma check_Inr_file:
  "check w d f h = Inr u \<Longrightarrow> filepath_Join [d, f] \<in> dom (files w)"
  by (auto simp: check_def Let_def os_Open_def read_all_def
           split: sum.splits list.splits if_splits option.splits)

lemma check_readable:
  assumes "readable w (filepath_Join [d, h]) D" "readable w (filepath_Join [d, f]) C"
  shows "check w d f h =
           (case hex_DecodeString (takeWhile (\<lambda>c. c \<noteq> CHR '' '') D) of
              Inl e \<Rightarrow> Inl (DecodeError (filepath_Join [d, h]) e)
            | Inr expected \<Rightarrow> if sha256 C \<noteq> expected then Inl HashMismatch else Inr ())"
proof -
  obtain ps where ps: "strings_Split D CHR '' '' = takeWhile (\<lambda>x. x \<noteq> CHR '' '') D # ps"
    using Split_hd by blast
  show ?thesis using assms
    by (simp add: check_def Let_def readable_def os_Open_def read_all_def ps domIff
             split: sum.splits)
qed

lemma Fetch_mkdir_fails:
  "os_MkdirAll (bundleBasePath_of b v r) w = Inl u \<Longrightarrow>
   Fetch b v r n w = (Inl (MkdirError (bundleBasePath_of b v r)), w)"
  by (simp add: Fetch_def Let_def)

lemma Fetch_hit:
  "os_MkdirAll (bundleBasePath_of b v r) w = Inr w1 \<Longrightarrow>
   os_Stat w1 (bundleFilePath_of b v r n) \<Longrightarrow>
   check w1 (bundleBasePath_of b v r) (bundleFile_of n) (bundleHash_of n) = Inr u \<Longrightarrow>
   Fetch b v r n w = (Inr (bundleFilePath_of b v r n), w1)"
  by (simp add: Fetch_def Let_def bundleFilePath_of_def)

lemma Fetch_miss:
  "os_MkdirAll (bundleBasePath_of b v r) w = Inr w1 \<Longrightarrow>
   \<not> os_Stat w1 (bundleFilePath_of b v r n)
     \<or> check w1 (bundleBasePath_of b v r) (bundleFile_of n) (bundleHash_of n) = Inl e \<Longrightarrow>
   Fetch b v r n w =
     (case fetch r (bundleBasePath_of b v r) (bundleFile_of n) (bundleHash_of n) w1 of
        (Inl e', w2) \<Rightarrow> (Inl (FetchError e'), w2)
      | (Inr _, w2) \<Rightarrow>
         (case check w2 (bundleBasePath_of b v r) (bundleFile_of n) (bundleHash_of n) of
            Inl e'' \<Rightarrow> (Inl (CheckError e''), w2)
          | Inr _ \<Rightarrow> (Inr (bundleFilePath_of b v r n), w2)))"
  by (auto simp: Fetch_def Let_def bundleFilePath_of_def split: prod.splits sum.splits)

lemma Fetch_Inr_path:
  "Fetch b v r n w = (Inr p, w') \<Longrightarrow> p = bundleFilePath_of b v r n"
  by (auto simp: Fetch_def Let_def bundleFilePath_of_def
           split: sum.splits if_splits prod.splits)

section \<open>The scenario, evaluated\<close>

lemma ex_base: "bundleBasePath_of ex_b 8 ''v8.0.0'' = ex_dir"
  unfolding ex_dir_def ex_b_def by code_simp

lemma ex_file: "bundleFile_of ''mainnet'' = ''builtin-actors-mainnet.car''"
  by (simp add: bundleFile_of_def)

lemma ex_hash: "bundleHash_of ''mainnet'' = ''builtin-actors-mainnet.sha256''"
  by (simp add: bundleHash_of_def)

lemma ex_join_file: "filepath_Join [ex_dir, ''builtin-actors-mainnet.car''] = ex_car_path"
  unfolding ex_dir_def ex_car_path_def by code_simp

lemma ex_join_hash: "filepath_Join [ex_dir, ''builtin-actors-mainnet.sha256''] = ex_sha_path"
  unfolding ex_dir_def ex_sha_path_def by code_simp

lemma ex_file_path: "bundleFilePath_of ex_b 8 ''v8.0.0'' ''mainnet'' = ex_car_path"
  by (simp add: bundleFilePath_of_def ex_base ex_file ex_join_file)

lemma ex_hash_path: "bundleHashPath_of ex_b 8 ''v8.0.0'' ''mainnet'' = ex_sha_path"
  by (simp add: bundleHashPath_of_def ex_base ex_hash ex_join_hash)

lemma ex_paths_neq: "ex_sha_path \<noteq> ex_car_path" "ex_car_path \<noteq> ex_sha_path"
  by (simp_all add: ex_sha_path_def ex_car_path_def)

lemma ex_urls_neq: "ex_sha_url \<noteq> ex_car_url" "ex_car_url \<noteq> ex_sha_url"
  by (simp_all add: ex_sha_url_def ex_car_url_def releaseURL_def)

lemma takeWhile_until: "c \<notin> set x \<Longrightarrow> takeWhile (\<lambda>a. a \<noteq> c) (x @ c # rest) = x"
  by (induction x) auto

lemma ex_sha_token: "takeWhile (\<lambda>c. c \<noteq> CHR '' '') ex_sha = hex_EncodeToString (sha256 ex_car)"
  using takeWhile_until [OF hex_no_space, of "sha256 ex_car"]
  by (simp add: ex_sha_def)

lemma ex_check_cached_files:
  assumes "files w = [ex_sha_path \<mapsto> ex_sha, ex_car_path \<mapsto> ex_car]" "denied w = {}"
  shows "check w ex_dir ''builtin-actors-mainnet.car'' ''builtin-actors-mainnet.sha256'' = Inr ()"
proof -
  have a: "readable w (filepath_Join [ex_dir, ''builtin-actors-mainnet.sha256'']) ex_sha"
    using assms ex_paths_neq by (simp add: readable_def ex_join_hash)
  have b: "readable w (filepath_Join [ex_dir, ''builtin-actors-mainnet.car'']) ex_car"
    using assms by (simp add: readable_def ex_join_file)
  show ?thesis
    by (simp add: check_readable [OF a b] ex_sha_token hex_roundtrip)
qed

lemma ex_fetch_run:
  assumes "files w = fs" "denied w = {}" "write_cap w = Map.empty" "origin w = ex_origin"
  shows "fetch ''v8.0.0'' ex_dir ''builtin-actors-mainnet.car'' ''builtin-actors-mainnet.sha256'' w
         = (Inr (), w\<lparr>files := fs(ex_sha_path \<mapsto> ex_sha, ex_car_path \<mapsto> ex_car),
                       requests := requests w @ [ex_sha_url, ex_car_url]\<rparr>)"
  using assms ex_urls_neq
  by (simp add: fetch_unfold ex_join_file ex_join_hash fetchURL_def Let_def os_OpenFile_def
        io_Copy_def ex_origin_def ex_sha_url_def [symmetric] ex_car_url_def [symmetric])

lemma ex_run_empty: "Fetch ex_b 8 ''v8.0.0'' ''mainnet'' ex_empty = (Inr ex_car_path, ex_cached)"
proof -
  let ?w1 = "ex_empty\<lparr>dirs := {ex_dir}\<rparr>"
  have m: "os_MkdirAll (bundleBasePath_of ex_b 8 ''v8.0.0'') ex_empty = Inr ?w1"
    by (simp add: os_MkdirAll_def ex_base ex_empty_def)
  have s: "\<not> os_Stat ?w1 (bundleFilePath_of ex_b 8 ''v8.0.0'' ''mainnet'')"
    by (simp add: os_Stat_def ex_file_path ex_empty_def ex_dir_def ex_car_path_def)
  have f: "fetch ''v8.0.0'' ex_dir ''builtin-actors-mainnet.car''
             ''builtin-actors-mainnet.sha256'' ?w1 = (Inr (), ex_cached)"
    by (subst ex_fetch_run [of ?w1 Map.empty]) (simp_all add: ex_empty_def ex_cached_def)
  have c: "check ex_cached ex_dir ''builtin-actors-mainnet.car''
             ''builtin-actors-mainnet.sha256'' = Inr ()"
    by (rule ex_check_cached_files) (simp_all add: ex_cached_def)
  show ?thesis
    using Fetch_miss [OF m disjI1 [OF s]]
    by (simp add: ex_base ex_file ex_hash f c ex_file_path)
qed


section \<open>The claims\<close>

text \<open>
  C3. When the bundle file exists and \<open>check\<close> succeeds, \<open>Fetch\<close> returns the bundle
  path at once: no URL is requested and no file changes. A second call right after a
  successful one, on the world the first call left and with nothing interfering (the
  operating system lets the bundle file be examined), returns the same path and leaves
  that world as it is, so it requests nothing.
\<close>

theorem Fetch_cache_hit_idempotent:
  "(os_MkdirAll (bundleBasePath_of b v r) w = Inr w1
      \<and> os_Stat w1 (bundleFilePath_of b v r n)
      \<and> check w1 (bundleBasePath_of b v r) (bundleFile_of n) (bundleHash_of n) = Inr ()
    \<longrightarrow> Fetch b v r n w = (Inr (bundleFilePath_of b v r n), w1)
        \<and> requests w1 = requests w \<and> files w1 = files w)
   \<and> (Fetch b v r n w = (Inr p, w') \<and> SysStat (bundleFilePath_of b v r n) \<notin> denied w
    \<longrightarrow> Fetch b v r n w' = (Inr p, w') \<and> requests (snd (Fetch b v r n w')) = requests w')"
proof (intro conjI impI)
  assume a: "os_MkdirAll (bundleBasePath_of b v r) w = Inr w1
      \<and> os_Stat w1 (bundleFilePath_of b v r n)
      \<and> check w1 (bundleBasePath_of b v r) (bundleFile_of n) (bundleHash_of n) = Inr ()"
  then show "Fetch b v r n w = (Inr (bundleFilePath_of b v r n), w1)"
    using Fetch_hit by blast
  from a MkdirAll_Inr [of "bundleBasePath_of b v r" w w1]
  show "requests w1 = requests w" "files w1 = files w" by auto
next
  let ?d = "bundleBasePath_of b v r" and ?f = "bundleFile_of n" and ?h = "bundleHash_of n"
  let ?fp = "bundleFilePath_of b v r n"
  assume a: "Fetch b v r n w = (Inr p, w') \<and> SysStat ?fp \<notin> denied w"
  then have run: "Fetch b v r n w = (Inr p, w')" and st: "SysStat ?fp \<notin> denied w" by auto
  have p: "p = ?fp" using run by (rule Fetch_Inr_path)
  obtain w1 where m: "os_MkdirAll ?d w = Inr w1"
    using run by (cases "os_MkdirAll ?d w") (auto simp: Fetch_mkdir_fails)
  note w1 = MkdirAll_Inr [OF m]
  have final: "check w' ?d ?f ?h = Inr () \<and> dirs w' = dirs w1 \<and> denied w' = denied w"
  proof (cases "os_Stat w1 ?fp \<and> check w1 ?d ?f ?h = Inr ()")
    case True
    then have "Fetch b v r n w = (Inr ?fp, w1)" using Fetch_hit [OF m] by blast
    with run True w1 show ?thesis by auto
  next
    case False
    then have miss: "\<not> os_Stat w1 ?fp \<or> (\<exists>e. check w1 ?d ?f ?h = Inl e)"
      by (cases "check w1 ?d ?f ?h") auto
    then obtain e where "\<not> os_Stat w1 ?fp \<or> check w1 ?d ?f ?h = Inl e" by blast
    note eq = Fetch_miss [OF m this]
    obtain res w2 where f: "fetch r ?d ?f ?h w1 = (res, w2)" by (cases "fetch r ?d ?f ?h w1")
    from run eq f obtain u where ok: "res = Inr u" "w2 = w'" "check w' ?d ?f ?h = Inr ()"
      by (cases res; cases "check w2 ?d ?f ?h") auto
    from f ok have "fetch r ?d ?f ?h w1 = (Inr u, w')" by simp
    from fetch_Inr_frame [OF this] ok(3) w1 show ?thesis by simp
  qed
  have d: "?d \<in> dirs w'" using final w1 by simp
  have m': "os_MkdirAll ?d w' = Inr w'"
    using w1 final d by (intro MkdirAll_again) auto
  have "?fp \<in> dom (files w')"
    using check_Inr_file [of w' ?d ?f ?h] final by (simp add: bundleFilePath_of_def)
  then have s': "os_Stat w' ?fp" using st final by (simp add: os_Stat_def)
  have "Fetch b v r n w' = (Inr ?fp, w')"
    using Fetch_hit [OF m' s'] final by blast
  then show "Fetch b v r n w' = (Inr p, w')" "requests (snd (Fetch b v r n w')) = requests w'"
    using p by simp_all
qed

theorem Fetch_cache_hit_idempotent_witness:
  "Fetch ex_b 8 ''v8.0.0'' ''mainnet'' ex_empty = (Inr ex_car_path, ex_cached)
   \<and> Fetch ex_b 8 ''v8.0.0'' ''mainnet'' ex_cached = (Inr ex_car_path, ex_cached)
   \<and> requests ex_empty = [] \<and> requests ex_cached = [ex_sha_url, ex_car_url]
   \<and> requests (snd (Fetch ex_b 8 ''v8.0.0'' ''mainnet'' ex_cached)) = [ex_sha_url, ex_car_url]"
proof -
  have st: "SysStat (bundleFilePath_of ex_b 8 ''v8.0.0'' ''mainnet'') \<notin> denied ex_empty"
    by (simp add: ex_empty_def)
  from Fetch_cache_hit_idempotent [of ex_b 8 "''v8.0.0''" ex_empty _ "''mainnet''" ex_car_path ex_cached]
    ex_run_empty st
  have "Fetch ex_b 8 ''v8.0.0'' ''mainnet'' ex_cached = (Inr ex_car_path, ex_cached)
        \<and> requests (snd (Fetch ex_b 8 ''v8.0.0'' ''mainnet'' ex_cached)) = requests ex_cached"
    by blast
  then show ?thesis using ex_run_empty by (simp add: ex_empty_def ex_cached_def)
qed



text \<open>
  C2. When the bundle file exists and \<open>check\<close> fails on it, for whatever reason,
  \<open>Fetch\<close> does not return that failure: its result is the result of fetching both
  files and checking again. When the fetch succeeds and the fetched files pass
  \<open>check\<close>, \<open>Fetch\<close> returns the bundle path, after one request for the digest file
  and one for the bundle.
\<close>

theorem Fetch_self_healing:
  assumes "os_MkdirAll (bundleBasePath_of b v r) w = Inr w1"
    and "os_Stat w1 (bundleFilePath_of b v r n)"
    and "check w1 (bundleBasePath_of b v r) (bundleFile_of n) (bundleHash_of n) = Inl e"
  shows "Fetch b v r n w =
           (case fetch r (bundleBasePath_of b v r) (bundleFile_of n) (bundleHash_of n) w1 of
              (Inl e', w2) \<Rightarrow> (Inl (FetchError e'), w2)
            | (Inr _, w2) \<Rightarrow>
               (case check w2 (bundleBasePath_of b v r) (bundleFile_of n) (bundleHash_of n) of
                  Inl e'' \<Rightarrow> (Inl (CheckError e''), w2)
                | Inr _ \<Rightarrow> (Inr (bundleFilePath_of b v r n), w2)))
         \<and> (fetch r (bundleBasePath_of b v r) (bundleFile_of n) (bundleHash_of n) w1 = (Inr (), w2)
              \<and> check w2 (bundleBasePath_of b v r) (bundleFile_of n) (bundleHash_of n) = Inr ()
            \<longrightarrow> Fetch b v r n w = (Inr (bundleFilePath_of b v r n), w2)
                \<and> requests w2 = requests w @ [releaseURL r (bundleHash_of n),
                                                 releaseURL r (bundleFile_of n)])"
proof -
  note eq = Fetch_miss [OF assms(1) disjI2 [OF assms(3)]]
  have rq: "requests w1 = requests w" using MkdirAll_Inr [OF assms(1)] by auto
  show ?thesis
  proof (intro conjI impI)
    show "Fetch b v r n w =
           (case fetch r (bundleBasePath_of b v r) (bundleFile_of n) (bundleHash_of n) w1 of
              (Inl e', w2) \<Rightarrow> (Inl (FetchError e'), w2)
            | (Inr _, w2) \<Rightarrow>
               (case check w2 (bundleBasePath_of b v r) (bundleFile_of n) (bundleHash_of n) of
                  Inl e'' \<Rightarrow> (Inl (CheckError e''), w2)
                | Inr _ \<Rightarrow> (Inr (bundleFilePath_of b v r n), w2)))"
      by (rule eq)
  next
    assume a: "fetch r (bundleBasePath_of b v r) (bundleFile_of n) (bundleHash_of n) w1 = (Inr (), w2)
              \<and> check w2 (bundleBasePath_of b v r) (bundleFile_of n) (bundleHash_of n) = Inr ()"
    then show "Fetch b v r n w = (Inr (bundleFilePath_of b v r n), w2)"
      using eq by simp
    from a have f: "fetch r (bundleBasePath_of b v r) (bundleFile_of n) (bundleHash_of n) w1
                      = (Inr (), w2)" by simp
    from fetch_Inr_frame [OF f] rq
    show "requests w2 = requests w @ [releaseURL r (bundleHash_of n), releaseURL r (bundleFile_of n)]"
      by simp
  qed
qed

lemma ex_stale_setup:
  "os_MkdirAll (bundleBasePath_of ex_b 8 ''v8.0.0'') ex_stale = Inr ex_stale"
  "os_Stat ex_stale (bundleFilePath_of ex_b 8 ''v8.0.0'' ''mainnet'')"
  "check ex_stale (bundleBasePath_of ex_b 8 ''v8.0.0'') (bundleFile_of ''mainnet'')
     (bundleHash_of ''mainnet'') = Inl (OpenError ex_sha_path)"
proof -
  show "os_MkdirAll (bundleBasePath_of ex_b 8 ''v8.0.0'') ex_stale = Inr ex_stale"
    by (rule MkdirAll_again) (simp_all add: ex_base ex_stale_def)
  show "os_Stat ex_stale (bundleFilePath_of ex_b 8 ''v8.0.0'' ''mainnet'')"
    by (simp add: os_Stat_def ex_file_path ex_stale_def)
  show "check ex_stale (bundleBasePath_of ex_b 8 ''v8.0.0'') (bundleFile_of ''mainnet'')
     (bundleHash_of ''mainnet'') = Inl (OpenError ex_sha_path)"
  proof -
    have "ex_sha_path \<noteq> ex_dir" by (simp add: ex_sha_path_def ex_dir_def)
    then show ?thesis
      using ex_paths_neq
      by (simp add: check_def Let_def ex_base ex_file ex_hash ex_join_hash os_Open_def
            ex_stale_def)
  qed
qed

lemma ex_stale_fetch:
  "fetch ''v8.0.0'' ex_dir ''builtin-actors-mainnet.car'' ''builtin-actors-mainnet.sha256'' ex_stale
     = (Inr (), ex_cached)"
proof -
  have "[ex_car_path \<mapsto> ''stale bytes''](ex_sha_path \<mapsto> ex_sha, ex_car_path \<mapsto> ex_car)
        = [ex_sha_path \<mapsto> ex_sha, ex_car_path \<mapsto> ex_car]"
    using ex_paths_neq by (auto simp: fun_eq_iff)
  then show ?thesis
    by (subst ex_fetch_run [of ex_stale "[ex_car_path \<mapsto> ''stale bytes'']"])
       (simp_all add: ex_stale_def ex_cached_def)
qed

theorem Fetch_self_healing_witness:
  "check ex_stale ex_dir ''builtin-actors-mainnet.car'' ''builtin-actors-mainnet.sha256''
     = Inl (OpenError ex_sha_path)
   \<and> Fetch ex_b 8 ''v8.0.0'' ''mainnet'' ex_stale = (Inr ex_car_path, ex_cached)
   \<and> requests ex_stale = [] \<and> requests ex_cached = [ex_sha_url, ex_car_url]"
proof -
  have c: "check ex_cached (bundleBasePath_of ex_b 8 ''v8.0.0'') (bundleFile_of ''mainnet'')
             (bundleHash_of ''mainnet'') = Inr ()"
    unfolding ex_base ex_file ex_hash
    by (rule ex_check_cached_files) (simp_all add: ex_cached_def)
  have f: "fetch ''v8.0.0'' (bundleBasePath_of ex_b 8 ''v8.0.0'') (bundleFile_of ''mainnet'')
             (bundleHash_of ''mainnet'') ex_stale = (Inr (), ex_cached)"
    unfolding ex_base ex_file ex_hash by (rule ex_stale_fetch)
  from Fetch_self_healing [OF ex_stale_setup, of ex_cached] f c
  have "Fetch ex_b 8 ''v8.0.0'' ''mainnet'' ex_stale
          = (Inr (bundleFilePath_of ex_b 8 ''v8.0.0'' ''mainnet''), ex_cached)"
    by blast
  then show ?thesis
    using ex_stale_setup(3)
    by (simp add: ex_file_path ex_base ex_file ex_hash ex_stale_def ex_cached_def)
qed

text \<open>
  C4. \<open>fetch\<close> downloads the digest file first. When that download fails because the
  origin cannot be reached or answers with a status other than 200, \<open>Fetch\<close> returns
  the error of the download wrapped as a fetch error; the only URL requested is the
  digest file's, and no file has been written.
\<close>

theorem Fetch_digest_download_fails:
  assumes "os_MkdirAll (bundleBasePath_of b v r) w = Inr w1"
    and "\<not> os_Stat w1 (bundleFilePath_of b v r n)
         \<or> check w1 (bundleBasePath_of b v r) (bundleFile_of n) (bundleHash_of n) = Inl e0"
    and "origin w (releaseURL r (bundleHash_of n)) = Unreachable
         \<or> (\<exists>status body c. origin w (releaseURL r (bundleHash_of n)) = Response status body c
                \<and> status \<noteq> 200)"
  shows "\<exists>w2. Fetch b v r n w =
            (Inl (FetchError
                   (case origin w (releaseURL r (bundleHash_of n)) of
                      Unreachable \<Rightarrow> GetError (releaseURL r (bundleHash_of n))
                    | Response status _ _ \<Rightarrow> StatusError (releaseURL r (bundleHash_of n)) status)),
             w2)
          \<and> requests w2 = requests w @ [releaseURL r (bundleHash_of n)]
          \<and> files w2 = files w"
proof -
  let ?u = "releaseURL r (bundleHash_of n)"
  let ?hp = "filepath_Join [bundleBasePath_of b v r, bundleHash_of n]"
  let ?e = "case origin w ?u of Unreachable \<Rightarrow> GetError ?u
            | Response status _ _ \<Rightarrow> StatusError ?u status"
  let ?w2 = "w1\<lparr>requests := requests w1 @ [?u]\<rparr>"
  have w1: "w1 = w\<lparr>dirs := insert (bundleBasePath_of b v r) (dirs w)\<rparr>"
    using MkdirAll_Inr [OF assms(1)] by simp
  then have o: "origin w1 = origin w" by simp
  have "fetchURL ?u ?hp w1 = (Inl ?e, ?w2)"
    using assms(3) o by (auto simp: fetchURL_Unreachable fetchURL_status)
  then have "fetch r (bundleBasePath_of b v r) (bundleFile_of n) (bundleHash_of n) w1 = (Inl ?e, ?w2)"
    by (rule fetch_hash_fails)
  then have "Fetch b v r n w = (Inl (FetchError ?e), ?w2)"
    using Fetch_miss [OF assms(1,2)] by simp
  moreover have "requests ?w2 = requests w @ [?u]" "files ?w2 = files w"
    using w1 by simp_all
  ultimately show ?thesis by blast
qed

theorem Fetch_digest_download_fails_witness:
  "fst (Fetch ex_b 8 ''v8.0.0'' ''mainnet'' ex_offline) = Inl (FetchError (GetError ex_sha_url))
   \<and> requests (snd (Fetch ex_b 8 ''v8.0.0'' ''mainnet'' ex_offline)) = [ex_sha_url]
   \<and> files (snd (Fetch ex_b 8 ''v8.0.0'' ''mainnet'' ex_offline)) = Map.empty"
proof -
  let ?w1 = "ex_offline\<lparr>dirs := {ex_dir}\<rparr>"
  have m: "os_MkdirAll (bundleBasePath_of ex_b 8 ''v8.0.0'') ex_offline = Inr ?w1"
    by (simp add: os_MkdirAll_def ex_base ex_offline_def)
  have s: "\<not> os_Stat ?w1 (bundleFilePath_of ex_b 8 ''v8.0.0'' ''mainnet'')
           \<or> check ?w1 (bundleBasePath_of ex_b 8 ''v8.0.0'') (bundleFile_of ''mainnet'')
                (bundleHash_of ''mainnet'') = Inl HashMismatch"
    by (simp add: os_Stat_def ex_file_path ex_offline_def ex_dir_def ex_car_path_def)
  have o: "origin ex_offline (releaseURL ''v8.0.0'' (bundleHash_of ''mainnet'')) = Unreachable
           \<or> (\<exists>status body c. origin ex_offline (releaseURL ''v8.0.0'' (bundleHash_of ''mainnet''))
                  = Response status body c \<and> status \<noteq> 200)"
    by (simp add: ex_offline_def)
  from Fetch_digest_download_fails [OF m s o] obtain w2 where
    "Fetch ex_b 8 ''v8.0.0'' ''mainnet'' ex_offline = (Inl (FetchError (GetError ex_sha_url)), w2)"
    "requests w2 = requests ex_offline @ [ex_sha_url]" "files w2 = files ex_offline"
    by (auto simp: ex_offline_def ex_hash ex_sha_url_def)
  then show ?thesis by (simp add: ex_offline_def)
qed

text \<open>
  C5. When the files have been fetched and \<open>check\<close> fails on them, \<open>Fetch\<close> returns
  that failure wrapped as a check error and no path. It does not fetch again: the
  requests made are the two of the one fetch.
\<close>

theorem Fetch_check_after_fetch_fatal:
  assumes "os_MkdirAll (bundleBasePath_of b v r) w = Inr w1"
    and "\<not> os_Stat w1 (bundleFilePath_of b v r n)
         \<or> check w1 (bundleBasePath_of b v r) (bundleFile_of n) (bundleHash_of n) = Inl e0"
    and "fetch r (bundleBasePath_of b v r) (bundleFile_of n) (bundleHash_of n) w1 = (Inr (), w2)"
    and "check w2 (bundleBasePath_of b v r) (bundleFile_of n) (bundleHash_of n) = Inl e"
  shows "Fetch b v r n w = (Inl (CheckError e), w2)
         \<and> requests w2 = requests w @ [releaseURL r (bundleHash_of n),
                                          releaseURL r (bundleFile_of n)]"
proof -
  have rq: "requests w1 = requests w" using MkdirAll_Inr [OF assms(1)] by auto
  have "Fetch b v r n w = (Inl (CheckError e), w2)"
    using Fetch_miss [OF assms(1,2)] assms(3,4) by simp
  then show ?thesis using fetch_Inr_frame [OF assms(3)] rq by simp
qed

lemma fetch_both_ok:
  assumes "origin w (releaseURL r h) = Response 200 X True"
    and "origin w (releaseURL r f) = Response 200 Y True"
    and "denied w = {}" "write_cap w = Map.empty"
  shows "fetch r d f h w =
           (Inr (), w\<lparr>files := (files w)(filepath_Join [d, h] \<mapsto> X, filepath_Join [d, f] \<mapsto> Y),
                         requests := requests w @ [releaseURL r h, releaseURL r f]\<rparr>)"
  using assms
  by (simp add: fetch_unfold fetchURL_def Let_def os_OpenFile_def io_Copy_def)

theorem Fetch_check_after_fetch_fatal_witness:
  "fst (Fetch ex_b 8 ''v8.0.0'' ''mainnet'' ex_garbled)
     = Inl (CheckError (DecodeError ex_sha_path (InvalidByteError CHR ''n'')))
   \<and> requests (snd (Fetch ex_b 8 ''v8.0.0'' ''mainnet'' ex_garbled)) = [ex_sha_url, ex_car_url]"
proof -
  let ?w1 = "ex_garbled\<lparr>dirs := {ex_dir}\<rparr>"
  let ?w2 = "?w1\<lparr>files := (files ?w1)(ex_sha_path \<mapsto> ''not a digest'', ex_car_path \<mapsto> ex_car),
                  requests := requests ?w1 @ [ex_sha_url, ex_car_url]\<rparr>"
  have m: "os_MkdirAll (bundleBasePath_of ex_b 8 ''v8.0.0'') ex_garbled = Inr ?w1"
    by (simp add: os_MkdirAll_def ex_base ex_garbled_def)
  have s: "\<not> os_Stat ?w1 (bundleFilePath_of ex_b 8 ''v8.0.0'' ''mainnet'')
           \<or> check ?w1 (bundleBasePath_of ex_b 8 ''v8.0.0'') (bundleFile_of ''mainnet'')
                (bundleHash_of ''mainnet'') = Inl HashMismatch"
    by (simp add: os_Stat_def ex_file_path ex_garbled_def ex_dir_def ex_car_path_def)
  have f: "fetch ''v8.0.0'' (bundleBasePath_of ex_b 8 ''v8.0.0'') (bundleFile_of ''mainnet'')
             (bundleHash_of ''mainnet'') ?w1 = (Inr (), ?w2)"
    unfolding ex_base ex_file ex_hash
    using ex_urls_neq
    by (subst fetch_both_ok [of _ _ _ "''not a digest''" _ ex_car])
       (simp_all add: ex_garbled_def ex_sha_url_def [symmetric] ex_car_url_def [symmetric]
          ex_join_hash ex_join_file)
  have a: "readable ?w2 (filepath_Join [ex_dir, ''builtin-actors-mainnet.sha256'']) ''not a digest''"
    using ex_paths_neq by (simp add: readable_def ex_join_hash ex_garbled_def)
  have b: "readable ?w2 (filepath_Join [ex_dir, ''builtin-actors-mainnet.car'']) ex_car"
    by (simp add: readable_def ex_join_file ex_garbled_def)
  have c: "check ?w2 (bundleBasePath_of ex_b 8 ''v8.0.0'') (bundleFile_of ''mainnet'')
             (bundleHash_of ''mainnet'')
           = Inl (DecodeError ex_sha_path (InvalidByteError CHR ''n''))"
    unfolding ex_base ex_file ex_hash
    by (subst check_readable [OF a b]) (simp add: ex_join_hash fromHexChar_def)
  from Fetch_check_after_fetch_fatal [OF m s f c]
  show ?thesis by (simp add: ex_garbled_def ex_hash ex_file ex_sha_url_def ex_car_url_def)
qed

lemma hex_Decode_chars:
  "hex_DecodeString s = Inr bs \<Longrightarrow> \<forall>c\<in>set s. fromHexChar c \<noteq> None"
  by (induction s arbitrary: bs rule: hex_DecodeString.induct)
     (auto split: option.splits sum.splits)

lemma hex_Decode_trailing:
  "fromHexChar c = None \<Longrightarrow>
   hex_DecodeString (hex_EncodeToString bs @ [c]) = Inl (InvalidByteError c)"
  by (induction bs) (simp_all add: hexdigit_inv of_char_nibbles)

lemma hexdigit_not_ws:
  assumes "k < 16"
  shows "hexdigit k \<noteq> CHR '' '' \<and> hexdigit k \<noteq> CHR 0x09 \<and> hexdigit k \<noteq> CHR 0x0A
         \<and> hexdigit k \<noteq> CHR 0x0D"
proof -
  have "fromHexChar (hexdigit k) = Some k" using assms by (rule hexdigit_inv)
  moreover have "fromHexChar CHR '' '' = None" "fromHexChar (CHR 0x09) = None"
    "fromHexChar (CHR 0x0A) = None" "fromHexChar (CHR 0x0D) = None"
    by (simp_all add: fromHexChar_def)
  ultimately show ?thesis by auto
qed

lemma spec_first_token_hex:
  "spec_first_token (hex_EncodeToString bs @ CHR 0x0A # rest) = hex_EncodeToString bs"
proof -
  have "\<forall>c\<in>set (hex_EncodeToString bs).
          c \<noteq> CHR '' '' \<and> c \<noteq> CHR 0x09 \<and> c \<noteq> CHR 0x0A \<and> c \<noteq> CHR 0x0D"
    by (induction bs) (simp_all add: hexdigit_not_ws of_char_nibbles)
  then show ?thesis by (simp add: spec_first_token_def takeWhile_append2)
qed

text \<open>
  C7, as amended. \<open>check\<close> takes the digest file's text up to its first space
  (U+0020) as the token, and nothing else of the file: with both files readable, its
  result is a decode error exactly when that token does not decode as hexadecimal, and
  otherwise depends on the token and the bundle only. A tab or a newline does not end the
  token: a token that holds one is refused with a decode error.
\<close>

theorem check_digest_token:
  assumes "readable w (filepath_Join [d, h]) D" "readable w (filepath_Join [d, f]) C"
  shows "check w d f h =
           (case hex_DecodeString (takeWhile (\<lambda>c. c \<noteq> CHR '' '') D) of
              Inl e \<Rightarrow> Inl (DecodeError (filepath_Join [d, h]) e)
            | Inr expected \<Rightarrow> if sha256 C \<noteq> expected then Inl HashMismatch else Inr ())
         \<and> ((\<exists>e. check w d f h = Inl (DecodeError (filepath_Join [d, h]) e))
              = (\<exists>e. hex_DecodeString (takeWhile (\<lambda>c. c \<noteq> CHR '' '') D) = Inl e))
         \<and> (CHR 0x09 \<in> set (takeWhile (\<lambda>c. c \<noteq> CHR '' '') D)
              \<or> CHR 0x0A \<in> set (takeWhile (\<lambda>c. c \<noteq> CHR '' '') D)
            \<longrightarrow> (\<exists>e. check w d f h = Inl (DecodeError (filepath_Join [d, h]) e)))"
proof -
  let ?tok = "takeWhile (\<lambda>c. c \<noteq> CHR '' '') D"
  note eq = check_readable [OF assms]
  have bad: "fromHexChar (CHR 0x09) = None" "fromHexChar (CHR 0x0A) = None"
    by (simp_all add: fromHexChar_def)
  have ws: "CHR 0x09 \<in> set ?tok \<or> CHR 0x0A \<in> set ?tok \<Longrightarrow> \<exists>e. hex_DecodeString ?tok = Inl e"
  proof (cases "hex_DecodeString ?tok")
    case (Inl e) then show ?thesis by blast
  next
    case (Inr bs)
    assume "CHR 0x09 \<in> set ?tok \<or> CHR 0x0A \<in> set ?tok"
    with hex_Decode_chars [OF Inr] bad show ?thesis by auto
  qed
  show ?thesis
  proof (intro conjI impI)
    show "check w d f h =
           (case hex_DecodeString ?tok of
              Inl e \<Rightarrow> Inl (DecodeError (filepath_Join [d, h]) e)
            | Inr expected \<Rightarrow> if sha256 C \<noteq> expected then Inl HashMismatch else Inr ())"
      by (rule eq)
    show "(\<exists>e. check w d f h = Inl (DecodeError (filepath_Join [d, h]) e))
              = (\<exists>e. hex_DecodeString ?tok = Inl e)"
      unfolding eq by (cases "hex_DecodeString ?tok") auto
    assume "CHR 0x09 \<in> set ?tok \<or> CHR 0x0A \<in> set ?tok"
    from ws [OF this] show "\<exists>e. check w d f h = Inl (DecodeError (filepath_Join [d, h]) e)"
      unfolding eq by auto
  qed
qed

theorem check_digest_token_witness:
  "check ex_cached ex_dir ''builtin-actors-mainnet.car'' ''builtin-actors-mainnet.sha256'' = Inr ()
   \<and> ex_sha = hex_EncodeToString (sha256 ex_car) @ ''  builtin-actors-mainnet.car'' @ [CHR 0x0A]"
proof -
  have a: "readable ex_cached (filepath_Join [ex_dir, ''builtin-actors-mainnet.sha256'']) ex_sha"
    using ex_paths_neq by (simp add: readable_def ex_join_hash ex_cached_def)
  have b: "readable ex_cached (filepath_Join [ex_dir, ''builtin-actors-mainnet.car'']) ex_car"
    by (simp add: readable_def ex_join_file ex_cached_def)
  from check_digest_token [OF a b]
  have "check ex_cached ex_dir ''builtin-actors-mainnet.car'' ''builtin-actors-mainnet.sha256''
        = (case hex_DecodeString (takeWhile (\<lambda>c. c \<noteq> CHR '' '') ex_sha) of
              Inl e \<Rightarrow> Inl (DecodeError
                  (filepath_Join [ex_dir, ''builtin-actors-mainnet.sha256'']) e)
            | Inr expected \<Rightarrow> if sha256 ex_car \<noteq> expected then Inl HashMismatch else Inr ())"
    by blast
  then have "check ex_cached ex_dir ''builtin-actors-mainnet.car''
               ''builtin-actors-mainnet.sha256'' = Inr ()"
    by (simp add: ex_sha_token hex_roundtrip)
  then show ?thesis by (simp add: ex_sha_def)
qed

text \<open>
  C7 as stated fails on a digest file that ends its digest with a newline and holds no
  space: the first whitespace-delimited token is the digest of the bundle, in
  hexadecimal, and \<open>check\<close> answers with a decode error for the newline.
\<close>

theorem check_digest_token_counterexample:
  "hex_DecodeString (spec_first_token (hex_EncodeToString (sha256 ex_car) @ [CHR 0x0A]))
     = Inr (sha256 ex_car)
   \<and> check (pair_world (hex_EncodeToString (sha256 ex_car) @ [CHR 0x0A]) ex_car)
        ex_dir ''builtin-actors-mainnet.car'' ''builtin-actors-mainnet.sha256''
     = Inl (DecodeError ex_sha_path (InvalidByteError (CHR 0x0A)))"
proof -
  let ?D = "hex_EncodeToString (sha256 ex_car) @ [CHR 0x0A]"
  have a: "readable (pair_world ?D ex_car)
             (filepath_Join [ex_dir, ''builtin-actors-mainnet.sha256'']) ?D"
    using ex_paths_neq by (simp add: readable_def ex_join_hash pair_world_def)
  have b: "readable (pair_world ?D ex_car)
             (filepath_Join [ex_dir, ''builtin-actors-mainnet.car'']) ex_car"
    by (simp add: readable_def ex_join_file pair_world_def)
  have t: "takeWhile (\<lambda>c. c \<noteq> CHR '' '') ?D = ?D"
    using hex_no_space [of "sha256 ex_car"] by (auto simp: takeWhile_eq_all_conv)
  have n: "fromHexChar (CHR 0x0A) = None" by (simp add: fromHexChar_def)
  have "check (pair_world ?D ex_car) ex_dir ''builtin-actors-mainnet.car''
          ''builtin-actors-mainnet.sha256''
        = Inl (DecodeError ex_sha_path (InvalidByteError (CHR 0x0A)))"
    by (subst check_readable [OF a b]) (simp add: t hex_Decode_trailing [OF n] ex_join_hash)
  then show ?thesis using spec_first_token_hex [of "sha256 ex_car" "[]"]
    by (simp add: hex_roundtrip)
qed




text \<open>
  C6, as amended. For the same version and release, the bundles of two different
  networks (names without a path separator) lie in the same versioned directory under
  different file names, \<open>builtin-actors-<network>.car\<close>: their paths differ, and a
  successful \<open>Fetch\<close> returns that path.
\<close>

theorem Fetch_network_paths:
  assumes "n1 \<noteq> n2" "CHR ''/'' \<notin> set n1" "CHR ''/'' \<notin> set n2"
  shows "bundleFilePath_of b v r n1 \<noteq> bundleFilePath_of b v r n2
         \<and> bundleFilePath_of b v r n1 = clean_dir (bundleBasePath_of b v r) @ bundleFile_of n1
         \<and> bundleFilePath_of b v r n2 = clean_dir (bundleBasePath_of b v r) @ bundleFile_of n2
         \<and> (Fetch b v r n1 w = (Inr p, w') \<longrightarrow> p = bundleFilePath_of b v r n1)"
  using assms file_path_inj [of n1 n2 b v r] bundleFilePath_eq [of n1 b v r]
    bundleFilePath_eq [of n2 b v r] Fetch_Inr_path [of b v r n1 w p w']
  by auto

theorem Fetch_network_paths_witness:
  "bundleFilePath_of ex_b 8 ''v8.0.0'' ''mainnet''
     \<noteq> bundleFilePath_of ex_b 8 ''v8.0.0'' ''calibrationnet''
   \<and> fst (Fetch ex_b 8 ''v8.0.0'' ''mainnet'' ex_empty)
       = Inr (bundleFilePath_of ex_b 8 ''v8.0.0'' ''mainnet'')"
proof -
  have a: "''mainnet'' \<noteq> ''calibrationnet''" "CHR ''/'' \<notin> set ''mainnet''"
    "CHR ''/'' \<notin> set ''calibrationnet''" by simp_all
  from Fetch_network_paths [OF a, of ex_b 8 "''v8.0.0''" ex_empty ex_car_path ex_cached]
    ex_run_empty
  have 1: "bundleFilePath_of ex_b 8 ''v8.0.0'' ''mainnet''
             \<noteq> bundleFilePath_of ex_b 8 ''v8.0.0'' ''calibrationnet''"
    and 2: "ex_car_path = bundleFilePath_of ex_b 8 ''v8.0.0'' ''mainnet''"
    by blast+
  show ?thesis
  proof (intro conjI)
    show "bundleFilePath_of ex_b 8 ''v8.0.0'' ''mainnet''
             \<noteq> bundleFilePath_of ex_b 8 ''v8.0.0'' ''calibrationnet''" by (rule 1)
    show "fst (Fetch ex_b 8 ''v8.0.0'' ''mainnet'' ex_empty)
            = Inr (bundleFilePath_of ex_b 8 ''v8.0.0'' ''mainnet'')"
      unfolding ex_run_empty using 2 by simp
  qed
qed

text \<open>
  C6 as stated fails: the directory of the bundle does not depend on the network. The
  bundles of \<open>mainnet\<close> and \<open>calibrationnet\<close> lie in the same directory.
\<close>

theorem Fetch_network_paths_counterexample:
  "\<not> (\<forall>n1 n2. n1 \<noteq> n2 \<longrightarrow>
         filepath_Dir (bundleFilePath_of ex_b 8 ''v8.0.0'' n1)
           \<noteq> filepath_Dir (bundleFilePath_of ex_b 8 ''v8.0.0'' n2))"
proof
  assume all: "\<forall>n1 n2. n1 \<noteq> n2 \<longrightarrow>
         filepath_Dir (bundleFilePath_of ex_b 8 ''v8.0.0'' n1)
           \<noteq> filepath_Dir (bundleFilePath_of ex_b 8 ''v8.0.0'' n2)"
  have m: "filepath_Dir (bundleFilePath_of ex_b 8 ''v8.0.0'' ''mainnet'')
             = ''/tmp/cache/builtin-actors/v8/v8.0.0''"
    unfolding ex_b_def by code_simp
  have c: "filepath_Dir (bundleFilePath_of ex_b 8 ''v8.0.0'' ''calibrationnet'')
             = ''/tmp/cache/builtin-actors/v8/v8.0.0''"
    unfolding ex_b_def by code_simp
  have "''mainnet'' \<noteq> ''calibrationnet''" by simp
  with all m c show False by metis
qed

lemma fetchURL_WriteError:
  assumes "fetchURL url p w = (Inl (WriteError p), w')"
  shows "\<exists>body c. origin w url = Response 200 body c
           \<and> files w' p = Some (case write_cap w p of None \<Rightarrow> body | Some k \<Rightarrow> take k body)"
  using assms
  by (auto simp: fetchURL_def os_OpenFile_def io_Copy_def Let_def
           split: response.splits if_splits sum.splits option.splits prod.splits)

lemma ex_stale_like_setup:
  assumes "dirs w = {ex_dir}" "files w = [ex_car_path \<mapsto> ''stale bytes'']" "denied w = {}"
  shows "os_MkdirAll (bundleBasePath_of ex_b 8 ''v8.0.0'') w = Inr w"
    and "check w (bundleBasePath_of ex_b 8 ''v8.0.0'') (bundleFile_of ''mainnet'')
           (bundleHash_of ''mainnet'') = Inl (OpenError ex_sha_path)"
proof -
  show "os_MkdirAll (bundleBasePath_of ex_b 8 ''v8.0.0'') w = Inr w"
    using assms by (intro MkdirAll_again) (simp_all add: ex_base)
  have "ex_sha_path \<noteq> ex_dir" by (simp add: ex_sha_path_def ex_dir_def)
  then show "check w (bundleBasePath_of ex_b 8 ''v8.0.0'') (bundleFile_of ''mainnet'')
           (bundleHash_of ''mainnet'') = Inl (OpenError ex_sha_path)"
    using ex_paths_neq assms
    by (simp add: check_def Let_def ex_base ex_file ex_hash ex_join_hash os_Open_def)
qed

text \<open>
  C8, as amended. An error is returned to the caller of \<open>Fetch\<close> when it arises in
  making the versioned directory, in the fetch (wrapped as a fetch error), or in the
  check after the fetch (wrapped as a check error). An error of the check on a bundle
  that was already there, a file that cannot be opened or read included, is not returned:
  \<open>Fetch\<close> fetches again and returns the outcome of that.
\<close>

theorem Fetch_error_propagation:
  "(os_MkdirAll (bundleBasePath_of b v r) w = Inl u
      \<longrightarrow> Fetch b v r n w = (Inl (MkdirError (bundleBasePath_of b v r)), w))
   \<and> (os_MkdirAll (bundleBasePath_of b v r) w = Inr w1
       \<and> (\<not> os_Stat w1 (bundleFilePath_of b v r n)
            \<or> check w1 (bundleBasePath_of b v r) (bundleFile_of n) (bundleHash_of n) = Inl e0)
       \<and> fetch r (bundleBasePath_of b v r) (bundleFile_of n) (bundleHash_of n) w1 = (Inl e, w2)
      \<longrightarrow> Fetch b v r n w = (Inl (FetchError e), w2))
   \<and> (os_MkdirAll (bundleBasePath_of b v r) w = Inr w1
       \<and> (\<not> os_Stat w1 (bundleFilePath_of b v r n)
            \<or> check w1 (bundleBasePath_of b v r) (bundleFile_of n) (bundleHash_of n) = Inl e0)
       \<and> fetch r (bundleBasePath_of b v r) (bundleFile_of n) (bundleHash_of n) w1 = (Inr (), w2)
       \<and> check w2 (bundleBasePath_of b v r) (bundleFile_of n) (bundleHash_of n) = Inl e
      \<longrightarrow> Fetch b v r n w = (Inl (CheckError e), w2))
   \<and> (os_MkdirAll (bundleBasePath_of b v r) w = Inr w1
       \<and> os_Stat w1 (bundleFilePath_of b v r n)
       \<and> check w1 (bundleBasePath_of b v r) (bundleFile_of n) (bundleHash_of n) = Inl e0
      \<longrightarrow> Fetch b v r n w =
            (case fetch r (bundleBasePath_of b v r) (bundleFile_of n) (bundleHash_of n) w1 of
               (Inl e', w2) \<Rightarrow> (Inl (FetchError e'), w2)
             | (Inr _, w2) \<Rightarrow>
                (case check w2 (bundleBasePath_of b v r) (bundleFile_of n) (bundleHash_of n) of
                   Inl e'' \<Rightarrow> (Inl (CheckError e''), w2)
                 | Inr _ \<Rightarrow> (Inr (bundleFilePath_of b v r n), w2))))"
proof (intro conjI impI)
  assume "os_MkdirAll (bundleBasePath_of b v r) w = Inl u"
  then show "Fetch b v r n w = (Inl (MkdirError (bundleBasePath_of b v r)), w)"
    by (rule Fetch_mkdir_fails)
next
  assume a: "os_MkdirAll (bundleBasePath_of b v r) w = Inr w1
       \<and> (\<not> os_Stat w1 (bundleFilePath_of b v r n)
            \<or> check w1 (bundleBasePath_of b v r) (bundleFile_of n) (bundleHash_of n) = Inl e0)
       \<and> fetch r (bundleBasePath_of b v r) (bundleFile_of n) (bundleHash_of n) w1 = (Inl e, w2)"
  then show "Fetch b v r n w = (Inl (FetchError e), w2)"
    using Fetch_miss [of b v r w w1 n e0] by simp
next
  assume a: "os_MkdirAll (bundleBasePath_of b v r) w = Inr w1
       \<and> (\<not> os_Stat w1 (bundleFilePath_of b v r n)
            \<or> check w1 (bundleBasePath_of b v r) (bundleFile_of n) (bundleHash_of n) = Inl e0)
       \<and> fetch r (bundleBasePath_of b v r) (bundleFile_of n) (bundleHash_of n) w1 = (Inr (), w2)
       \<and> check w2 (bundleBasePath_of b v r) (bundleFile_of n) (bundleHash_of n) = Inl e"
  then show "Fetch b v r n w = (Inl (CheckError e), w2)"
    using Fetch_miss [of b v r w w1 n e0] by simp
next
  assume a: "os_MkdirAll (bundleBasePath_of b v r) w = Inr w1
       \<and> os_Stat w1 (bundleFilePath_of b v r n)
       \<and> check w1 (bundleBasePath_of b v r) (bundleFile_of n) (bundleHash_of n) = Inl e0"
  then show "Fetch b v r n w =
            (case fetch r (bundleBasePath_of b v r) (bundleFile_of n) (bundleHash_of n) w1 of
               (Inl e', w2) \<Rightarrow> (Inl (FetchError e'), w2)
             | (Inr _, w2) \<Rightarrow>
                (case check w2 (bundleBasePath_of b v r) (bundleFile_of n) (bundleHash_of n) of
                   Inl e'' \<Rightarrow> (Inl (CheckError e''), w2)
                 | Inr _ \<Rightarrow> (Inr (bundleFilePath_of b v r n), w2)))"
    using Fetch_miss [of b v r w w1 n e0] by blast
qed

theorem Fetch_error_propagation_witness:
  "Fetch ex_b 8 ''v8.0.0'' ''mainnet'' ex_readonly = (Inl (MkdirError ex_dir), ex_readonly)"
proof -
  have "os_MkdirAll (bundleBasePath_of ex_b 8 ''v8.0.0'') ex_readonly = Inl ()"
    by (simp add: os_MkdirAll_def ex_base ex_readonly_def)
  with Fetch_error_propagation [of ex_b 8 "''v8.0.0''" ex_readonly "()" "''mainnet''"]
  have "Fetch ex_b 8 ''v8.0.0'' ''mainnet'' ex_readonly
          = (Inl (MkdirError (bundleBasePath_of ex_b 8 ''v8.0.0'')), ex_readonly)"
    by blast
  then show ?thesis by (simp add: ex_base)
qed

text \<open>
  C8 as stated fails where the cached bundle cannot be opened and the origin answers
  404: \<open>check\<close> fails to open the bundle, \<open>Fetch\<close> requests the digest file again and
  returns the error of that download; the error of opening the bundle is not returned.
\<close>

theorem Fetch_error_propagation_counterexample:
  "check ex_unreadable ex_dir ''builtin-actors-mainnet.car'' ''builtin-actors-mainnet.sha256''
     = Inl (OpenError ex_car_path)
   \<and> fst (Fetch ex_b 8 ''v8.0.0'' ''mainnet'' ex_unreadable)
       = Inl (FetchError (StatusError ex_sha_url 404))
   \<and> requests ex_unreadable = []
   \<and> requests (snd (Fetch ex_b 8 ''v8.0.0'' ''mainnet'' ex_unreadable)) = [ex_sha_url]"
proof -
  have m: "os_MkdirAll (bundleBasePath_of ex_b 8 ''v8.0.0'') ex_unreadable = Inr ex_unreadable"
    by (rule MkdirAll_again) (simp_all add: ex_base ex_unreadable_def)
  have a: "readable ex_unreadable (filepath_Join [ex_dir, ''builtin-actors-mainnet.sha256'']) ex_sha"
    using ex_paths_neq by (simp add: readable_def ex_join_hash ex_unreadable_def)
  obtain ps where ps: "strings_Split ex_sha CHR '' '' = takeWhile (\<lambda>x. x \<noteq> CHR '' '') ex_sha # ps"
    using Split_hd by blast
  have c: "check ex_unreadable ex_dir ''builtin-actors-mainnet.car''
             ''builtin-actors-mainnet.sha256'' = Inl (OpenError ex_car_path)"
    using a ex_paths_neq
    by (simp add: check_def Let_def readable_def os_Open_def read_all_def ps ex_sha_token
          hex_roundtrip ex_join_hash ex_join_file ex_unreadable_def)
  have "Fetch ex_b 8 ''v8.0.0'' ''mainnet'' ex_unreadable
          = (Inl (FetchError (StatusError ex_sha_url 404)),
             ex_unreadable\<lparr>requests := [ex_sha_url]\<rparr>)"
    using Fetch_miss [OF m, of "''mainnet''" "OpenError ex_car_path"] c
    by (simp add: ex_base ex_file ex_hash fetch_unfold fetchURL_def ex_unreadable_def
          ex_sha_url_def)
  then show ?thesis using c by (simp add: ex_unreadable_def)
qed

text \<open>
  C10, as amended. When the digest file has been downloaded and the download of the
  bundle fails, \<open>Fetch\<close> returns the error wrapped as a fetch error, and the digest file
  holds the content just downloaded. The bundle file is as it was before the call when
  the download failed before the copy (no response, a status other than 200, or the file
  could not be opened for writing); when the copy failed, the bundle file holds the bytes
  written until then.
\<close>

theorem Fetch_artifact_download_fails:
  assumes "os_MkdirAll (bundleBasePath_of b v r) w = Inr w1"
    and "\<not> os_Stat w1 (bundleFilePath_of b v r n)
         \<or> check w1 (bundleBasePath_of b v r) (bundleFile_of n) (bundleHash_of n) = Inl e0"
    and "fetchURL (releaseURL r (bundleHash_of n)) (bundleHashPath_of b v r n) w1 = (Inr (), w2)"
    and "fetchURL (releaseURL r (bundleFile_of n)) (bundleFilePath_of b v r n) w2 = (Inl e, w3)"
    and "bundleHashPath_of b v r n \<noteq> bundleFilePath_of b v r n"
  shows "Fetch b v r n w = (Inl (FetchError e), w3)
         \<and> (\<exists>body. origin w (releaseURL r (bundleHash_of n)) = Response 200 body True
               \<and> files w3 (bundleHashPath_of b v r n) = Some body)
         \<and> (e \<noteq> WriteError (bundleFilePath_of b v r n)
              \<longrightarrow> files w3 (bundleFilePath_of b v r n) = files w (bundleFilePath_of b v r n))
         \<and> (e = WriteError (bundleFilePath_of b v r n)
              \<longrightarrow> (\<exists>body c. origin w (releaseURL r (bundleFile_of n)) = Response 200 body c
                     \<and> files w3 (bundleFilePath_of b v r n)
                         = Some (case write_cap w (bundleFilePath_of b v r n) of
                                   None \<Rightarrow> body | Some k \<Rightarrow> take k body)))"
proof -
  let ?hp = "bundleHashPath_of b v r n" and ?fp = "bundleFilePath_of b v r n"
  have w1: "w1 = w\<lparr>dirs := insert (bundleBasePath_of b v r) (dirs w)\<rparr>"
    using MkdirAll_Inr [OF assms(1)] by simp
  note f2 = fetchURL_frame [OF assms(3)]
  note f3 = fetchURL_frame [OF assms(4)]
  have "fetch r (bundleBasePath_of b v r) (bundleFile_of n) (bundleHash_of n) w1 = (Inl e, w3)"
    using assms(3,4) by (intro fetch_file_fails) (simp_all add: bundleHashPath_of_def bundleFilePath_of_def)
  then have run: "Fetch b v r n w = (Inl (FetchError e), w3)"
    using Fetch_miss [OF assms(1,2)] by simp
  obtain body where body: "origin w1 (releaseURL r (bundleHash_of n)) = Response 200 body True"
    "files w2 ?hp = Some body"
    using fetchURL_Inr [OF assms(3)] by (elim exE conjE)
  have hp: "files w3 ?hp = Some body" using f3 assms(5) body(2) by simp
  have keep: "files w3 ?fp = files w ?fp" if "e \<noteq> WriteError ?fp"
  proof -
    have "files w3 = files w2" using fetchURL_not_written [OF assms(4) that] .
    moreover have "files w2 ?fp = files w1 ?fp" using f2 assms(5) by simp
    ultimately show ?thesis using w1 by simp
  qed
  have cut: "\<exists>body c. origin w (releaseURL r (bundleFile_of n)) = Response 200 body c
                \<and> files w3 ?fp = Some (case write_cap w ?fp of None \<Rightarrow> body | Some k \<Rightarrow> take k body)"
    if "e = WriteError ?fp"
  proof -
    from assms(4) that have "fetchURL (releaseURL r (bundleFile_of n)) ?fp w2 = (Inl (WriteError ?fp), w3)"
      by simp
    from fetchURL_WriteError [OF this] f2 w1 show ?thesis by simp
  qed
  have o: "origin w1 = origin w" using w1 by simp
  show ?thesis
  proof (intro conjI impI)
    show "Fetch b v r n w = (Inl (FetchError e), w3)" by (rule run)
    show "\<exists>body. origin w (releaseURL r (bundleHash_of n)) = Response 200 body True
               \<and> files w3 ?hp = Some body"
      using body(1) hp o by auto
    show "files w3 ?fp = files w ?fp" if "e \<noteq> WriteError ?fp"
      using keep [OF that] .
    show "\<exists>body c. origin w (releaseURL r (bundleFile_of n)) = Response 200 body c
                     \<and> files w3 ?fp
                         = Some (case write_cap w ?fp of None \<Rightarrow> body | Some k \<Rightarrow> take k body)"
      if "e = WriteError ?fp"
      using cut [OF that] .
  qed
qed

theorem Fetch_artifact_download_fails_witness:
  "fst (Fetch ex_b 8 ''v8.0.0'' ''mainnet'' ex_half) = Inl (FetchError (StatusError ex_car_url 404))
   \<and> files (snd (Fetch ex_b 8 ''v8.0.0'' ''mainnet'' ex_half)) ex_sha_path = Some ex_sha
   \<and> files (snd (Fetch ex_b 8 ''v8.0.0'' ''mainnet'' ex_half)) ex_car_path = Some ''stale bytes''"
proof -
  let ?w2 = "ex_half\<lparr>requests := [ex_sha_url], files := [ex_car_path \<mapsto> ''stale bytes'', ex_sha_path \<mapsto> ex_sha]\<rparr>"
  let ?w3 = "?w2\<lparr>requests := [ex_sha_url, ex_car_url]\<rparr>"
  have s: "dirs ex_half = {ex_dir}" "files ex_half = [ex_car_path \<mapsto> ''stale bytes'']"
    "denied ex_half = {}" by (simp_all add: ex_half_def)
  note m = ex_stale_like_setup(1) [OF s]
  note c = disjI2 [OF ex_stale_like_setup(2) [OF s]]
  have a: "fetchURL (releaseURL ''v8.0.0'' (bundleHash_of ''mainnet''))
             (bundleHashPath_of ex_b 8 ''v8.0.0'' ''mainnet'') ex_half = (Inr (), ?w2)"
    by (simp add: ex_hash ex_hash_path fetchURL_def Let_def os_OpenFile_def io_Copy_def
          ex_half_def ex_sha_url_def [symmetric])
  have b: "fetchURL (releaseURL ''v8.0.0'' (bundleFile_of ''mainnet''))
             (bundleFilePath_of ex_b 8 ''v8.0.0'' ''mainnet'') ?w2
           = (Inl (StatusError ex_car_url 404), ?w3)"
    using ex_urls_neq
    by (simp add: ex_file ex_file_path fetchURL_def Let_def ex_half_def
          ex_car_url_def [symmetric])
  have n: "bundleHashPath_of ex_b 8 ''v8.0.0'' ''mainnet'' \<noteq> bundleFilePath_of ex_b 8 ''v8.0.0'' ''mainnet''"
    by (simp add: ex_hash_path ex_file_path ex_paths_neq)
  from Fetch_artifact_download_fails [OF m c a b n]
  show ?thesis by (auto simp: ex_hash_path ex_file_path ex_half_def)
qed

text \<open>
  C10 as stated fails where the connection breaks while the bundle is copied: the
  bundle file no longer holds what it held before the call, but the three bytes that
  arrived.
\<close>

theorem Fetch_artifact_download_fails_counterexample:
  "fst (Fetch ex_b 8 ''v8.0.0'' ''mainnet'' ex_broken) = Inl (FetchError (WriteError ex_car_path))
   \<and> files (snd (Fetch ex_b 8 ''v8.0.0'' ''mainnet'' ex_broken)) ex_sha_path = Some ex_sha
   \<and> files ex_broken ex_car_path = Some ''stale bytes''
   \<and> files (snd (Fetch ex_b 8 ''v8.0.0'' ''mainnet'' ex_broken)) ex_car_path = Some ''the''"
proof -
  have s: "dirs ex_broken = {ex_dir}" "files ex_broken = [ex_car_path \<mapsto> ''stale bytes'']"
    "denied ex_broken = {}" by (simp_all add: ex_broken_def)
  note m = ex_stale_like_setup(1) [OF s]
  note c = disjI2 [OF ex_stale_like_setup(2) [OF s]]
  have "Fetch ex_b 8 ''v8.0.0'' ''mainnet'' ex_broken
          = (Inl (FetchError (WriteError ex_car_path)),
             ex_broken\<lparr>requests := [ex_sha_url, ex_car_url],
                        files := [ex_car_path \<mapsto> ''stale bytes'', ex_sha_path \<mapsto> ex_sha,
                                  ex_car_path \<mapsto> ''the'']\<rparr>)"
    using Fetch_miss [OF m c] ex_urls_neq ex_paths_neq
    by (simp add: ex_base ex_file ex_hash fetch_unfold ex_join_hash ex_join_file fetchURL_def
          Let_def os_OpenFile_def io_Copy_def ex_broken_def
          ex_sha_url_def [symmetric] ex_car_url_def [symmetric])
  then show ?thesis using ex_paths_neq by (simp add: ex_broken_def)
qed

end
